theory Spec2Isabelle
  imports Main "HOL-Library.Word"
begin

section \<open>Go library functions used by the agent\<close>

text \<open>
  A Go \<open>error\<close> is represented by the text that \<open>err.Error()\<close> returns: the agent itself
  inspects errors only through that text (\<open>strings.Contains(err.Error(), ...)\<close>).
  A function returning \<open>error\<close> returns \<open>error option\<close>, with \<open>None\<close> for \<open>nil\<close>.
  A \<open>[]byte\<close> is a \<open>string\<close> (a list of 8-bit characters).
\<close>

type_synonym error = string
type_synonym bytes = string

text \<open>\<open>strings.Contains(s, substr)\<close>: \<open>substr\<close> occurs somewhere in \<open>s\<close>.\<close>

fun strings_Contains :: "string \<Rightarrow> string \<Rightarrow> bool" where
  "strings_Contains [] substr = (substr = [])"
| "strings_Contains (c # cs) substr =
     (take (length substr) (c # cs) = substr \<or> strings_Contains cs substr)"

text \<open>
  \<open>strings.Replace(s, old, new, n)\<close> for \<open>n \<ge> 0\<close>: the first \<open>n\<close> non-overlapping
  occurrences of \<open>old\<close>, scanning from the left, are replaced by \<open>new\<close>. The agent calls
  it only with a non-empty \<open>old\<close>.
\<close>

fun strings_Replace :: "string \<Rightarrow> string \<Rightarrow> string \<Rightarrow> nat \<Rightarrow> string" where
  "strings_Replace s old new 0 = s"
| "strings_Replace [] old new (Suc n) = []"
| "strings_Replace (c # cs) old new (Suc n) =
     (if take (length old) (c # cs) = old
      then new @ strings_Replace (drop (length old) (c # cs)) old new n
      else c # strings_Replace cs old new (Suc n))"

text \<open>\<open>strings.Join(elems, sep)\<close>.\<close>

fun strings_Join :: "string list \<Rightarrow> string \<Rightarrow> string" where
  "strings_Join [] sep = []"
| "strings_Join [x] sep = x"
| "strings_Join (x # y # ys) sep = x @ sep @ strings_Join (y # ys) sep"

text \<open>\<open>strconv.Itoa\<close> and the \<open>%d\<close> verb of \<open>fmt.Sprintf\<close>: decimal digits, a leading minus sign.\<close>

fun utoa :: "nat \<Rightarrow> string" where
  "utoa n = (if n < 10 then [''0123456789'' ! n]
             else utoa (n div 10) @ [''0123456789'' ! (n mod 10)])"

declare utoa.simps [simp del]

definition Itoa :: "int \<Rightarrow> string" where
  "Itoa i = (if i < 0 then CHR ''-'' # utoa (nat (- i)) else utoa (nat i))"

text \<open>
  \<open>http.Header\<close> is a Go \<open>map[string][]string\<close>; \<open>Add\<close> appends a value to the values
  stored under the key. (net/http compares field names without regard to case; the
  names are kept here as the source writes them.)
\<close>

type_synonym Header = "string \<rightharpoonup> string list"

definition Header_Add :: "Header \<Rightarrow> string \<Rightarrow> string \<Rightarrow> Header" where
  "Header_Add h key v = h(key \<mapsto> (case h key of None \<Rightarrow> [] | Some vs \<Rightarrow> vs) @ [v])"

text \<open>\<open>Header.Set\<close> replaces the values stored under the key by the single value.\<close>

definition Header_Set :: "Header \<Rightarrow> string \<Rightarrow> string \<Rightarrow> Header" where
  "Header_Set h key v = h(key \<mapsto> [v])"

text \<open>
  The loop \<open>for name, values := range h { out[name] = strings.Join(values, ", ") }\<close>
  that both handlers run over the origin's response header: each name of \<open>h\<close> is mapped
  to its values joined by a comma and a space.
\<close>

definition joinHeaders :: "Header \<Rightarrow> (string \<rightharpoonup> string)" where
  "joinHeaders h = (\<lambda>name. map_option (\<lambda>values. strings_Join values '', '') (h name))"

section \<open>Package tunnel: the tunnel protocol (protocol.go)\<close>

record TunnelMessage =
  Type :: string
  ID :: string
  Method :: string
  URL :: string
  Headers :: "string \<rightharpoonup> string"
  Body :: bytes
  Status :: int
  Error :: string
  Timestamp :: int

text \<open>A \<open>*websocket.Conn\<close> is a handle (a number naming the connection).\<close>

record AgentTunnelProtocol =
  conn :: nat
  localPort :: int
  tunnelID :: string

definition NewAgentTunnelProtocol :: "nat \<Rightarrow> string \<Rightarrow> int \<Rightarrow> AgentTunnelProtocol" where
  "NewAgentTunnelProtocol c tid port = \<lparr>conn = c, localPort = port, tunnelID = tid\<rparr>"

definition StatusBadGateway :: int where
  "StatusBadGateway = 502"

definition StatusSwitchingProtocols :: int where
  "StatusSwitchingProtocols = 101"

text \<open>
  What the protocol handler does outside its own fields is logged in a \<open>Wire\<close>: the
  frames \<open>WriteMessage\<close> wrote to the tunnel connection, in order; the requests made to
  the local origin; the WebSocket dials to the local origin; the messages written to
  local WebSocket connections (connection, message kind, payload); the local
  connections closed; the close frame and the closing of the tunnel connection; the
  sleeps. \<open>now\<close> is what \<open>time.Now().Unix()\<close> returns.
\<close>

record Wire =
  now :: int
  sent :: "TunnelMessage list"
  originRequests :: "(string \<times> string \<times> Header \<times> bytes) list"
  localDials :: "(string \<times> Header) list"
  localWritten :: "(nat \<times> int \<times> bytes) list"
  localClosed :: "nat list"
  closeFrameSent :: bool
  tunnelClosed :: bool
  pauses :: "64 word list"

text \<open>
  \<open>sendMessage\<close> can fail at three places: \<open>json.Marshal\<close>, \<open>SetWriteDeadline\<close> and
  \<open>WriteMessage\<close>. The frame is on the wire only when all three succeed.
\<close>

datatype send_outcome = SendOk | MarshalErr error | DeadlineErr error | WriteErr error

definition sendMessage :: "send_outcome \<Rightarrow> TunnelMessage \<Rightarrow> Wire \<Rightarrow> error option \<times> Wire" where
  "sendMessage outcome message wire =
     (case outcome of
        MarshalErr err \<Rightarrow> (Some (''failed to marshal message: '' @ err), wire)
      | DeadlineErr err \<Rightarrow> (Some (''failed to set write deadline: '' @ err), wire)
      | WriteErr err \<Rightarrow> (Some err, wire)
      | SendOk \<Rightarrow> (None, wire\<lparr>sent := sent wire @ [message]\<rparr>))"

definition sendErrorResponse ::
  "send_outcome \<Rightarrow> string \<Rightarrow> string \<Rightarrow> Wire \<Rightarrow> error option \<times> Wire" where
  "sendErrorResponse outcome requestID errorMsg wire =
     (let response = \<lparr>Type = ''http_response'', ID = requestID, Method = [], URL = [],
                       Headers = [''Content-Type'' \<mapsto> ''text/plain''], Body = errorMsg,
                       Status = StatusBadGateway, Error = errorMsg, Timestamp = now wire\<rparr>
      in sendMessage outcome response wire)"

text \<open>
  The header of the request to the origin: \<open>Set(name, value)\<close> for every entry of the
  frame's \<open>headers\<close>.
\<close>

definition requestHeader :: "(string \<rightharpoonup> string) \<Rightarrow> Header" where
  "requestHeader hs = (\<lambda>name. map_option (\<lambda>v. [v]) (hs name))"

text \<open>
  The answer of the local origin to an HTTP request, by the place where the handler
  learns it: \<open>http.NewRequest\<close> fails; \<open>client.Do\<close> fails; \<open>io.ReadAll\<close> of the body
  fails after a response with a status and a header arrived; or the whole response is
  read.
\<close>

datatype origin_outcome =
  NewRequestErr error
| DoErr error
| ReadAllErr int Header error
| Response int Header bytes

definition handleHTTPRequest ::
  "AgentTunnelProtocol \<Rightarrow> origin_outcome \<Rightarrow> send_outcome \<Rightarrow> TunnelMessage \<Rightarrow> Wire
     \<Rightarrow> error option \<times> Wire" where
  "handleHTTPRequest atp origin outcome message wire =
     (let targetURL = ''http://localhost:'' @ Itoa (localPort atp) @ URL message;
          requested = wire\<lparr>originRequests := originRequests wire @
                        [(Method message, targetURL, requestHeader (Headers message),
                          Body message)]\<rparr>
      in case origin of
           NewRequestErr err \<Rightarrow>
             sendErrorResponse outcome (ID message) (''Failed to create request: '' @ err) wire
         | DoErr err \<Rightarrow>
             sendErrorResponse outcome (ID message)
               (''Failed to connect to local service: '' @ err) requested
         | ReadAllErr st h err \<Rightarrow>
             sendErrorResponse outcome (ID message)
               (''Failed to read response: '' @ err) requested
         | Response st h body \<Rightarrow>
             let response = \<lparr>Type = ''http_response'', ID = ID message, Method = [],
                              URL = [], Headers = joinHeaders h, Body = body,
                              Status = st, Error = [], Timestamp = now wire\<rparr>
             in sendMessage outcome response requested)"

text \<open>
  The goroutine of \<open>handleWebSocketForwarding\<close>: every message read from the local
  connection is sent as a \<open>websocket_data\<close> frame, until a read or a send fails. The
  script lists the messages the local connection delivers before its read fails, each
  with the outcome of its send. The function waits for the goroutine and returns
  \<open>nil\<close>.
\<close>

fun forwardLocalToTunnel :: "(int \<times> bytes \<times> send_outcome) list \<Rightarrow> string \<Rightarrow> Wire \<Rightarrow> Wire" where
  "forwardLocalToTunnel [] requestID wire = wire"
| "forwardLocalToTunnel ((messageType, data, outcome) # script) requestID wire =
     (let tunnelMsg = \<lparr>Type = ''websocket_data'', ID = requestID, Method = [], URL = [],
                       Headers = [''message_type'' \<mapsto> Itoa messageType], Body = data,
                       Status = 0, Error = [], Timestamp = now wire\<rparr>
      in case sendMessage outcome tunnelMsg wire of
           (Some err, wire1) \<Rightarrow> wire1
         | (None, wire1) \<Rightarrow> forwardLocalToTunnel script requestID wire1)"

definition handleWebSocketForwarding ::
  "(int \<times> bytes \<times> send_outcome) list \<Rightarrow> string \<Rightarrow> nat \<Rightarrow> Wire \<Rightarrow> error option \<times> Wire" where
  "handleWebSocketForwarding script requestID localConn wire =
     (None, forwardLocalToTunnel script requestID wire)"

text \<open>
  The answer of the local origin to \<open>websocket.DefaultDialer.Dial\<close>: an error, or a
  connection with the response of the handshake (a pointer, which may be \<open>nil\<close>).
\<close>

datatype ws_dial_outcome = WsDialErr error | WsDialOk nat "Header option"

definition handleWebSocketUpgrade ::
  "AgentTunnelProtocol \<Rightarrow> ws_dial_outcome \<Rightarrow> send_outcome
     \<Rightarrow> (int \<times> bytes \<times> send_outcome) list \<Rightarrow> TunnelMessage \<Rightarrow> Wire \<Rightarrow> error option \<times> Wire" where
  "handleWebSocketUpgrade atp dial outcome script message wire =
     (let localURL = ''ws://localhost:'' @ Itoa (localPort atp) @ URL message;
          header = requestHeader (Headers message);
          wire = wire\<lparr>localDials := localDials wire @ [(localURL, header)]\<rparr>
      in case dial of
           WsDialErr err \<Rightarrow>
             let response = \<lparr>Type = ''websocket_upgrade_response'', ID = ID message,
                              Method = [], URL = [], Headers = Map.empty, Body = [],
                              Status = StatusBadGateway,
                              Error = ''Failed to connect to local WebSocket: '' @ err,
                              Timestamp = now wire\<rparr>
             in sendMessage outcome response wire
         | WsDialOk localConn resp \<Rightarrow>
             let responseHeaders = (case resp of None \<Rightarrow> Map.empty
                                    | Some h \<Rightarrow> joinHeaders h);
                 response = \<lparr>Type = ''websocket_upgrade_response'', ID = ID message,
                              Method = [], URL = [], Headers = responseHeaders, Body = [],
                              Status = StatusSwitchingProtocols, Error = [],
                              Timestamp = now wire\<rparr>
             in (case sendMessage outcome response wire of
                   (Some err, wire1) \<Rightarrow>
                     (Some err, wire1\<lparr>localClosed := localClosed wire1 @ [localConn]\<rparr>)
                 | (None, wire1) \<Rightarrow>
                     (case handleWebSocketForwarding script (ID message) localConn wire1 of
                        (r, wire2) \<Rightarrow>
                          (r, wire2\<lparr>localClosed := localClosed wire2 @ [localConn]\<rparr>))))"

text \<open>
  \<open>handleWebSocketData\<close> logs the frame's id and the length of its body and returns
  \<open>nil\<close>.
\<close>

definition handleWebSocketData :: "TunnelMessage \<Rightarrow> Wire \<Rightarrow> error option \<times> Wire" where
  "handleWebSocketData message wire = (None, wire)"

definition handlePing :: "send_outcome \<Rightarrow> TunnelMessage \<Rightarrow> Wire \<Rightarrow> error option \<times> Wire" where
  "handlePing outcome message wire =
     (let pongMessage = \<lparr>Type = ''pong'', ID = ID message, Method = [], URL = [],
                          Headers = Map.empty, Body = [], Status = 0, Error = [],
                          Timestamp = now wire\<rparr>
      in sendMessage outcome pongMessage wire)"

text \<open>
  The environment of one call of \<open>HandleTunnelMessage\<close>: what \<open>json.Unmarshal\<close> makes of
  the bytes received, and the answers of the origin and of the tunnel connection to
  whatever the handler asks of them.
\<close>

record Env =
  unmarshal :: "error + TunnelMessage"
  origin :: origin_outcome
  wsDial :: ws_dial_outcome
  send :: send_outcome
  forwarding :: "(int \<times> bytes \<times> send_outcome) list"

definition HandleTunnelMessage :: "AgentTunnelProtocol \<Rightarrow> Env \<Rightarrow> Wire \<Rightarrow> error option \<times> Wire" where
  "HandleTunnelMessage atp env wire =
     (case unmarshal env of
        Inl err \<Rightarrow> (Some (''failed to unmarshal tunnel message: '' @ err), wire)
      | Inr message \<Rightarrow>
          if Type message = ''http_request''
            then handleHTTPRequest atp (origin env) (send env) message wire
          else if Type message = ''websocket_upgrade''
            then handleWebSocketUpgrade atp (wsDial env) (send env) (forwarding env) message wire
          else if Type message = ''websocket_data''
            then handleWebSocketData message wire
          else if Type message = ''ping''
            then handlePing (send env) message wire
          else if Type message = ''pong''
            then (None, wire)
          else if Type message = ''terminate''
            then (None, wire\<lparr>closeFrameSent := True,
                               pauses := pauses wire @ [100 * 1000000],
                               tunnelClosed := True\<rparr>)
          else if Type message = ''connected''
            then (None, wire)
          else (None, wire))"

section \<open>Package config\<close>

record Config =
  ServerURL :: string
  WebURL :: string
  TunnelDomain :: string

record Tunnel =
  ID :: string
  Name :: string
  Subdomain :: string
  LocalPort :: int
  AuthToken :: string
  IsActive :: bool
  AutoStart :: bool

section \<open>Package tunnel: the tunnel manager (manager.go)\<close>

text \<open>
  The context and its cancel function of a \<open>TunnelConnection\<close> are the flag
  \<open>Cancelled\<close>.
\<close>

record TunnelConnection =
  Tunnel :: Tunnel
  Connection :: nat
  Protocol :: AgentTunnelProtocol
  Cancelled :: bool
  Status :: string

record TunnelManager =
  config :: Config
  activeTunnels :: "string \<rightharpoonup> TunnelConnection"

definition NewTunnelManager :: "Config \<Rightarrow> TunnelManager" where
  "NewTunnelManager cfg = \<lparr>config = cfg, activeTunnels = Map.empty\<rparr>"

text \<open>
  What the manager does to the world outside its own fields is logged: every call of
  \<open>dialer.Dial\<close> with its URL and headers, every \<open>time.Sleep\<close> with its duration (a
  \<open>time.Duration\<close>: signed 64-bit nanoseconds), every close frame written and every
  connection closed, every goroutine started, and (for the service manager below) every
  call that rewrites the configuration file.
\<close>

datatype goroutine =
  HandleTunnelConnection TunnelConnection
| MonitorAndReconnect Tunnel string

datatype config_call =
  SetTunnelActive string bool
| SetTunnelAutoStart string bool

record World =
  dialed :: "(string \<times> Header) list"
  slept :: "64 word list"
  closeFrames :: "nat list"
  closed :: "nat list"
  spawned :: "goroutine list"
  configCalls :: "config_call list"

type_synonym state = "TunnelManager \<times> World"

text \<open>
  The answer of the network to \<open>dialer.Dial\<close>: a connection, or an error with its text.
\<close>

datatype dial_outcome = DialOk nat | DialErr error

definition IsConnected :: "TunnelManager \<Rightarrow> string \<Rightarrow> bool" where
  "IsConnected tm tid = (activeTunnels tm tid \<noteq> None)"

definition GetTunnelStatus :: "TunnelManager \<Rightarrow> string \<Rightarrow> string" where
  "GetTunnelStatus tm tid =
     (case activeTunnels tm tid of Some tunnelConn \<Rightarrow> Status tunnelConn
      | None \<Rightarrow> ''disconnected'')"


text \<open>
  \<open>ConnectTunnel\<close> holds the manager's write lock from its first statement to its return,
  so it is one atomic step on the manager. The dial outcome is consulted only when the
  function reaches \<open>dialer.Dial\<close>. \<open>dialURL\<close> is the computation of \<open>serverURL\<close> and
  \<open>dialHeaders\<close> the construction of \<open>headers\<close> in the body of \<open>ConnectTunnel\<close>. The
  context made before the dial is cancelled again when the dial fails and is then
  held by nothing; the custom dialer (time-outs, keep-alive, buffers, compression)
  only shapes the connection and is not modelled.
\<close>

definition dialURL :: "Config \<Rightarrow> string" where
  "dialURL cfg =
     (let serverURL = strings_Replace (ServerURL cfg) ''http://'' ''ws://'' 1;
          serverURL = strings_Replace serverURL ''https://'' ''wss://'' 1
      in serverURL @ ''/tunnel/connect'')"

definition dialHeaders :: "Tunnel \<Rightarrow> string \<Rightarrow> Header" where
  "dialHeaders tunnel token =
     (let headers = Map.empty;
          headers = Header_Add headers ''Authorization'' (''Bearer '' @ token);
          headers = Header_Add headers ''X-Tunnel-ID'' (ID tunnel);
          headers = Header_Add headers ''X-Tunnel-Auth'' (AuthToken tunnel)
      in headers)"

definition ConnectTunnel ::
  "dial_outcome \<Rightarrow> Tunnel \<Rightarrow> string \<Rightarrow> state \<Rightarrow> error option \<times> state" where
  "ConnectTunnel dial tunnel token s =
     (let (tm, w) = s in
      if activeTunnels tm (ID tunnel) \<noteq> None
      then (Some (''tunnel '' @ Name tunnel @ '' is already connected''), s)
      else
        let serverURL = dialURL (config tm);
            headers = dialHeaders tunnel token;
            w = w\<lparr>dialed := dialed w @ [(serverURL, headers)]\<rparr>
        in case dial of
             DialErr err \<Rightarrow>
               (Some (''failed to connect to tunnel server: '' @ err), (tm, w))
           | DialOk c \<Rightarrow>
               let protocol = NewAgentTunnelProtocol c (ID tunnel) (LocalPort tunnel);
                   tunnelConn = \<lparr>Tunnel = tunnel, Connection = c, Protocol = protocol,
                                 Cancelled = False, Status = ''connected''\<rparr>;
                   tm = tm\<lparr>activeTunnels := (activeTunnels tm)(ID tunnel \<mapsto> tunnelConn)\<rparr>;
                   w = w\<lparr>spawned := spawned w @ [HandleTunnelConnection tunnelConn]\<rparr>
               in (None, (tm, w)))"

text \<open>
  \<open>DisconnectTunnel\<close>, also atomic under the write lock. Whether the close frame could be
  written does not change what follows (a failure is only logged).
\<close>

definition DisconnectTunnel :: "string \<Rightarrow> state \<Rightarrow> error option \<times> state" where
  "DisconnectTunnel tid s =
     (let (tm, w) = s in
      case activeTunnels tm tid of
        None \<Rightarrow> (Some ''tunnel not connected'', s)
      | Some tunnelConn \<Rightarrow>
          let w = w\<lparr>closeFrames := closeFrames w @ [Connection tunnelConn]\<rparr>;
              w = w\<lparr>slept := slept w @ [100 * 1000000]\<rparr>;
              w = w\<lparr>closed := closed w @ [Connection tunnelConn]\<rparr>;
              tm = tm\<lparr>activeTunnels := (activeTunnels tm)(tid := None)\<rparr>
          in (None, (tm, w)))"

text \<open>
  The deferred clean-up of \<open>handleTunnelConnection\<close>, run when the handler of a
  connection returns: the entry stored under the connection's tunnel id is deleted and
  the connection is closed.
\<close>

definition handleTunnelConnection_cleanup :: "TunnelConnection \<Rightarrow> state \<Rightarrow> state" where
  "handleTunnelConnection_cleanup tunnelConn s =
     (let (tm, w) = s;
          tm = tm\<lparr>activeTunnels := (activeTunnels tm)(ID (Tunnel tunnelConn) := None)\<rparr>;
          w = w\<lparr>closed := closed w @ [Connection tunnelConn]\<rparr>
      in (tm, w))"

text \<open>
  Other goroutines use the same manager. Each of their calls is atomic under the lock, so
  between two calls of the goroutine that is followed, the map may have gained the
  session another goroutine registered or lost the entry another goroutine deleted.
\<close>

datatype interference =
  Quiet
| Registered TunnelConnection
| Removed string

fun interfere :: "interference \<Rightarrow> TunnelManager \<Rightarrow> TunnelManager" where
  "interfere Quiet tm = tm"
| "interfere (Registered tunnelConn) tm =
     tm\<lparr>activeTunnels := (activeTunnels tm)(ID (Tunnel tunnelConn) \<mapsto> tunnelConn)\<rparr>"
| "interfere (Removed tid) tm = tm\<lparr>activeTunnels := (activeTunnels tm)(tid := None)\<rparr>"

text \<open>
  The environment of one pass of a retry loop: what other goroutines did to the map
  since the previous pass, and what the network answers if the pass dials.
\<close>

type_synonym attempt_env = "interference \<times> dial_outcome"

text \<open>
  A retry loop may run for ever. It is run against a finite script of passes; when the
  script ends before the loop returns, the call is \<open>StillRunning\<close>.
\<close>

datatype 'a call = StillRunning | Returned 'a

text \<open>
  The back-off computation, written twice in the source with the same text (in
  \<open>ConnectTunnelWithRetry\<close> and in \<open>monitorAndReconnect\<close>):
  \<^verbatim>\<open>multiplier := 1 << uint(attempt-1)\<close>,
  \<^verbatim>\<open>delay := time.Duration(int64(baseDelay) * int64(multiplier))\<close>,
  \<^verbatim>\<open>if delay > maxDelay { delay = maxDelay }\<close>,
  on 64-bit integers: the shift and the product wrap, the comparison is signed.
\<close>

definition baseDelay :: "64 word" where
  "baseDelay = 2 * 1000000000"

definition maxDelay :: "64 word" where
  "maxDelay = 60 * 1000000000"

definition backoffDelay :: "int \<Rightarrow> 64 word" where
  "backoffDelay attempt =
     (let multiplier = push_bit (unat (word_of_int (attempt - 1) :: 64 word)) (1 :: 64 word);
          delay = baseDelay * multiplier
      in if maxDelay <s delay then maxDelay else delay)"

definition connect_maxRetries :: int where
  "connect_maxRetries = 5"

definition maxReconnectAttempts :: int where
  "maxReconnectAttempts = 10"

text \<open>
  The \<open>for\<close> loop of \<open>ConnectTunnelWithRetry\<close>; \<open>attempt\<close> is the loop's counter at the
  start of the pass.
\<close>

fun ConnectTunnelWithRetry_loop ::
  "attempt_env list \<Rightarrow> int \<Rightarrow> Tunnel \<Rightarrow> string \<Rightarrow> bool \<Rightarrow> state \<Rightarrow> error option call \<times> state" where
  "ConnectTunnelWithRetry_loop [] attempt tunnel token autoReconnect s = (StillRunning, s)"
| "ConnectTunnelWithRetry_loop ((i, dial) # script) attempt tunnel token autoReconnect s =
     (case ConnectTunnel dial tunnel token (interfere i (fst s), snd s) of
        (None, (tm, w)) \<Rightarrow>
          (Returned None,
           (tm, if autoReconnect
                then w\<lparr>spawned := spawned w @ [MonitorAndReconnect tunnel token]\<rparr>
                else w))
      | (Some err, (tm, w)) \<Rightarrow>
          if strings_Contains err ''already connected'' then (Returned (Some err), (tm, w))
          else
            let attempt = attempt + 1 in
            if attempt \<ge> connect_maxRetries \<and> \<not> autoReconnect
            then (Returned (Some (''failed to connect tunnel after '' @ Itoa connect_maxRetries
                                   @ '' attempts: '' @ err)), (tm, w))
            else
              let delay = backoffDelay attempt;
                  w = w\<lparr>slept := slept w @ [delay]\<rparr>;
                  attempt = (if autoReconnect \<and> attempt \<ge> connect_maxRetries
                             then connect_maxRetries - 1 else attempt)
              in ConnectTunnelWithRetry_loop script attempt tunnel token autoReconnect (tm, w))"

definition ConnectTunnelWithRetry ::
  "attempt_env list \<Rightarrow> Tunnel \<Rightarrow> string \<Rightarrow> bool \<Rightarrow> state \<Rightarrow> error option call \<times> state" where
  "ConnectTunnelWithRetry script tunnel token autoReconnect s =
     ConnectTunnelWithRetry_loop script 0 tunnel token autoReconnect s"

text \<open>
  \<open>monitorAndReconnect\<close>. The inner loop \<open>for attempt < maxReconnectAttempts\<close> is
  \<open>reconnect_loop\<close>; the goroutine ends in one of three ways.
\<close>

datatype monitor_exit = Reconnected | FoundConnected | GaveUp

fun reconnect_loop ::
  "attempt_env list \<Rightarrow> int \<Rightarrow> Tunnel \<Rightarrow> string \<Rightarrow> state \<Rightarrow> monitor_exit call \<times> state" where
  "reconnect_loop [] attempt tunnel token s =
     (if attempt < maxReconnectAttempts then (StillRunning, s) else (Returned GaveUp, s))"
| "reconnect_loop ((i, dial) # script) attempt tunnel token s =
     (if attempt < maxReconnectAttempts
      then
        let attempt = attempt + 1;
            delay = backoffDelay attempt
        in case ConnectTunnel dial tunnel token (interfere i (fst s), snd s) of
             (None, s') \<Rightarrow> (Returned Reconnected, s')
           | (Some err, (tm, w)) \<Rightarrow>
               if strings_Contains err ''already connected''
               then (Returned FoundConnected, (tm, w))
               else reconnect_loop script attempt tunnel token
                      (tm, w\<lparr>slept := slept w @ [delay]\<rparr>)
      else (Returned GaveUp, s))"

text \<open>
  The outer loop waits for the ticker; \<open>ticks\<close> lists, for each tick, what other
  goroutines did to the map before it. At the first tick that finds the tunnel
  disconnected the inner loop runs and the goroutine returns.
\<close>

fun monitorAndReconnect ::
  "interference list \<Rightarrow> attempt_env list \<Rightarrow> Tunnel \<Rightarrow> string \<Rightarrow> state \<Rightarrow> monitor_exit call \<times> state" where
  "monitorAndReconnect [] script tunnel token s = (StillRunning, s)"
| "monitorAndReconnect (i # ticks) script tunnel token s =
     (let tm = interfere i (fst s) in
      if \<not> IsConnected tm (ID tunnel)
      then reconnect_loop script 0 tunnel token (tm, snd s)
      else monitorAndReconnect ticks script tunnel token (tm, snd s))"

text \<open>
  The operations that change the manager's map, each atomic under the write lock, and a
  run of any number of them in any order from the manager \<open>NewTunnelManager\<close> returns.
\<close>

datatype operation =
  OpConnect dial_outcome Tunnel string
| OpDisconnect string
| OpCleanup TunnelConnection

fun step :: "operation \<Rightarrow> state \<Rightarrow> state" where
  "step (OpConnect dial tunnel token) s = snd (ConnectTunnel dial tunnel token s)"
| "step (OpDisconnect tid) s = snd (DisconnectTunnel tid s)"
| "step (OpCleanup tunnelConn) s = handleTunnelConnection_cleanup tunnelConn s"

definition emptyWorld :: World where
  "emptyWorld = \<lparr>dialed = [], slept = [], closeFrames = [], closed = [], spawned = [],
                  configCalls = []\<rparr>"


section \<open>Package service: the manager (manager.go)\<close>

text \<open>
  The environment of one call of the service manager's \<open>ConnectTunnel\<close>: whether the
  user is authenticated, what \<open>LoadConfig\<close> returns (an error, or the tunnels of the
  configuration file), what \<open>GetValidToken\<close> returns, and the script of the retry loop.
\<close>

record ConnectEnv =
  isAuthenticated :: bool
  loadConfig :: "error + (string \<rightharpoonup> Tunnel)"
  getValidToken :: "error + string"
  attempts :: "attempt_env list"



section \<open>Package service: the health monitor (\<^verbatim>\<open>health_monitor.go\<close>)\<close>










section \<open>Predicates used in the statements\<close>



text \<open>A pass of a retry loop whose dial, if made, fails.\<close>

fun dial_failed :: "attempt_env \<Rightarrow> bool" where
  "dial_failed (i, DialErr err) = True"
| "dial_failed (i, DialOk c) = False"

text \<open>
  A pass in which no other goroutine touched the map and the dial fails with an error
  that the loops take for a transport failure (its text does not contain
  \<open>already connected\<close>).
\<close>

fun plain_failure :: "attempt_env \<Rightarrow> bool" where
  "plain_failure (Quiet, DialErr err) =
     (\<not> strings_Contains (''failed to connect to tunnel server: '' @ err) ''already connected'')"
| "plain_failure (i, dial) = False"

definition refused :: attempt_env where
  "refused = (Quiet, DialErr ''connection refused'')"

text \<open>The origin outcomes in which the call to the origin failed.\<close>

fun origin_failed :: "origin_outcome \<Rightarrow> bool" where
  "origin_failed (NewRequestErr err) = True"
| "origin_failed (DoErr err) = True"
| "origin_failed (ReadAllErr st h err) = True"
| "origin_failed (Response st h body) = False"

section \<open>Example values\<close>

definition exampleConfig :: Config where
  "exampleConfig = \<lparr>ServerURL = ''https://edge.example.com/api/v1'',
                     WebURL = ''https://example.com'', TunnelDomain = ''example.com''\<rparr>"

definition exampleTunnel :: Tunnel where
  "exampleTunnel = \<lparr>ID = ''t1'', Name = ''web'', Subdomain = ''web'', LocalPort = 3000,
                     AuthToken = ''secret'', IsActive = False, AutoStart = False\<rparr>"

definition exampleConn :: TunnelConnection where
  "exampleConn = \<lparr>Tunnel = exampleTunnel, Connection = 1,
                   Protocol = NewAgentTunnelProtocol 1 ''t1'' 3000,
                   Cancelled = False, Status = ''connected''\<rparr>"

definition connectedManager :: TunnelManager where
  "connectedManager = \<lparr>config = exampleConfig, activeTunnels = [''t1'' \<mapsto> exampleConn]\<rparr>"

definition exampleProtocol :: AgentTunnelProtocol where
  "exampleProtocol = NewAgentTunnelProtocol 1 ''t1'' 3000"

definition emptyWire :: Wire where
  "emptyWire = \<lparr>now = 1700000000, sent = [], originRequests = [], localDials = [],
                 localWritten = [], localClosed = [], closeFrameSent = False,
                 tunnelClosed = False, pauses = []\<rparr>"

definition requestFrame :: TunnelMessage where
  "requestFrame = \<lparr>Type = ''http_request'', ID = ''r1'', Method = ''GET'', URL = ''/hello'',
                    Headers = Map.empty, Body = [], Status = 0, Error = [], Timestamp = 0\<rparr>"


definition dataFrame :: TunnelMessage where
  "dataFrame = \<lparr>Type = ''websocket_data'', ID = ''u1'', Method = [], URL = [],
                 Headers = [''message_type'' \<mapsto> ''1''], Body = ''a'', Status = 0,
                 Error = [], Timestamp = 0\<rparr>"

text \<open>
  An environment in which the origin is down, and one in which it answers: the request
  is answered \<open>200 world\<close>, the WebSocket dial gives connection 7, which then delivers
  the text message \<open>x\<close>.
\<close>

definition downEnv :: "TunnelMessage \<Rightarrow> Env" where
  "downEnv frame = \<lparr>unmarshal = Inr frame, origin = DoErr ''connection refused'',
                    wsDial = WsDialErr ''connection refused'', send = SendOk,
                    forwarding = []\<rparr>"

definition upEnv :: "TunnelMessage \<Rightarrow> Env" where
  "upEnv frame = \<lparr>unmarshal = Inr frame,
                  origin = Response 200 [''Content-Type'' \<mapsto> [''text/plain'']] ''world'',
                  wsDial = WsDialOk 7 (Some [''Upgrade'' \<mapsto> [''websocket'']]),
                  send = SendOk, forwarding = [(1, ''x'', SendOk)]\<rparr>"

text \<open>
  The wire while the pairing \<open>u1\<close> is established: the local WebSocket was dialled, the
  upgrade response with status 101 is sent, and the local connection 7 is open.
\<close>

definition pairedWire :: Wire where
  "pairedWire = emptyWire\<lparr>
     localDials := [(''ws://localhost:3000/ws'', Map.empty)],
     sent := [\<lparr>Type = ''websocket_upgrade_response'', ID = ''u1'', Method = [], URL = [],
               Headers = [''Upgrade'' \<mapsto> ''websocket''], Body = [],
               Status = 101, Error = [], Timestamp = 1700000000\<rparr>]\<rparr>"




section \<open>ConnectTunnel: the two ways to fail\<close>

lemma ConnectTunnel_present:
  "activeTunnels tm (Tunnel.ID tunnel) = Some c \<Longrightarrow>
   ConnectTunnel dial tunnel token (tm, w) =
     (Some (''tunnel '' @ Name tunnel @ '' is already connected''), (tm, w))"
  by (simp add: ConnectTunnel_def)

lemma ConnectTunnel_absent_fail:
  "activeTunnels tm (Tunnel.ID tunnel) = None \<Longrightarrow>
   ConnectTunnel (DialErr err) tunnel token (tm, w) =
     (Some (''failed to connect to tunnel server: '' @ err),
      (tm, w\<lparr>dialed := dialed w @ [(dialURL (config tm), dialHeaders tunnel token)]\<rparr>))"
  by (simp add: ConnectTunnel_def Let_def)

text \<open>
  Claim C10. When the dial of \<open>ConnectTunnel\<close> fails, the call returns an error and the
  manager is the one it was before the call: no entry is added to the map. The dial is
  reached only for a tunnel id that is not in the map, and then the error is the
  wrapped dial error, the dial is the one logged, and \<open>IsConnected\<close> is still false for
  the tunnel id after the call.
\<close>

theorem ConnectTunnel_failed_dial_atomic:
  "fst (ConnectTunnel (DialErr err) tunnel token (tm, w)) \<noteq> None
   \<and> fst (snd (ConnectTunnel (DialErr err) tunnel token (tm, w))) = tm
   \<and> (\<not> IsConnected tm (Tunnel.ID tunnel) \<longrightarrow>
        fst (ConnectTunnel (DialErr err) tunnel token (tm, w)) =
          Some (''failed to connect to tunnel server: '' @ err)
        \<and> dialed (snd (snd (ConnectTunnel (DialErr err) tunnel token (tm, w)))) =
            dialed w @ [(dialURL (config tm), dialHeaders tunnel token)]
        \<and> \<not> IsConnected (fst (snd (ConnectTunnel (DialErr err) tunnel token (tm, w))))
              (Tunnel.ID tunnel))"
  by (cases "activeTunnels tm (Tunnel.ID tunnel)")
     (simp_all add: ConnectTunnel_present ConnectTunnel_absent_fail IsConnected_def)

theorem ConnectTunnel_failed_dial_atomic_witness:
  "\<not> IsConnected (NewTunnelManager exampleConfig) (Tunnel.ID exampleTunnel)
   \<and> fst (ConnectTunnel (DialErr ''connection refused'') exampleTunnel ''tok''
            (NewTunnelManager exampleConfig, emptyWorld)) =
       Some ''failed to connect to tunnel server: connection refused''
   \<and> fst (snd (ConnectTunnel (DialErr ''connection refused'') exampleTunnel ''tok''
            (NewTunnelManager exampleConfig, emptyWorld))) = NewTunnelManager exampleConfig
   \<and> \<not> IsConnected (fst (snd (ConnectTunnel (DialErr ''connection refused'') exampleTunnel ''tok''
            (NewTunnelManager exampleConfig, emptyWorld)))) ''t1''"
  using ConnectTunnel_failed_dial_atomic [of "''connection refused''" exampleTunnel "''tok''"
          "NewTunnelManager exampleConfig" emptyWorld]
  by (simp add: IsConnected_def NewTunnelManager_def exampleTunnel_def)

lemma ConnectTunnel_cases:
  "ConnectTunnel dial tunnel token (tm, w) =
     (if activeTunnels tm (Tunnel.ID tunnel) \<noteq> None
      then (Some (''tunnel '' @ Name tunnel @ '' is already connected''), (tm, w))
      else case dial of
        DialErr err \<Rightarrow> (Some (''failed to connect to tunnel server: '' @ err),
           (tm, w\<lparr>dialed := dialed w @ [(dialURL (config tm), dialHeaders tunnel token)]\<rparr>))
      | DialOk c \<Rightarrow> (None,
           (tm\<lparr>activeTunnels := (activeTunnels tm)(Tunnel.ID tunnel \<mapsto>
                 \<lparr>Tunnel = tunnel, Connection = c,
                  Protocol = NewAgentTunnelProtocol c (Tunnel.ID tunnel) (LocalPort tunnel),
                  Cancelled = False, Status = ''connected''\<rparr>)\<rparr>,
            w\<lparr>dialed := dialed w @ [(dialURL (config tm), dialHeaders tunnel token)],
              spawned := spawned w @ [HandleTunnelConnection
                 \<lparr>Tunnel = tunnel, Connection = c,
                  Protocol = NewAgentTunnelProtocol c (Tunnel.ID tunnel) (LocalPort tunnel),
                  Cancelled = False, Status = ''connected''\<rparr>]\<rparr>)))"
  by (cases dial) (simp_all add: ConnectTunnel_def Let_def)

lemma ConnectTunnel_logs:
  assumes "ConnectTunnel dial tunnel token (tm, w) = (r, (tm', w'))"
  shows "slept w' = slept w" and "closed w' = closed w" and "closeFrames w' = closeFrames w"
    and "length (dialed w') \<le> Suc (length (dialed w))"
    and "length (dialed w) \<le> length (dialed w')"
    and "dial_failed (i, dial) \<Longrightarrow> r \<noteq> None"
  using assms by (cases dial; auto simp add: ConnectTunnel_cases split: if_splits)+


lemma fresh_manager: "activeTunnels (NewTunnelManager cfg) tid = None"
  by (simp add: NewTunnelManager_def)

section \<open>The endpoint and the headers of the dial\<close>








section \<open>At most one registered session for a tunnel id\<close>









section \<open>A duplicate connect is not retried\<close>

lemma strings_Contains_append:
  "strings_Contains b sub \<Longrightarrow> strings_Contains (a @ b) sub"
  by (induction a) simp_all

lemma already_connected_text:
  "strings_Contains (''tunnel '' @ name @ '' is already connected'') ''already connected''"
proof -
  have "strings_Contains '' is already connected'' ''already connected''" by simp
  then have "strings_Contains ((''tunnel '' @ name) @ '' is already connected'') ''already connected''"
    by (rule strings_Contains_append)
  then show ?thesis by simp
qed

text \<open>
  Claim C7. A connect for a tunnel id that is in the map returns the error
  \<open>tunnel <name> is already connected\<close> and leaves the manager and the world as they
  were. Both retry loops recognise the error by its text: the pass of
  \<open>ConnectTunnelWithRetry\<close> that meets it, whatever the counter, returns that error to
  the caller, and the pass of the reconnect loop that meets it ends the goroutine; in
  both the world is the one before the pass, so nothing was dialled and nothing slept,
  and the rest of the script is not consumed.
\<close>

theorem already_connected_not_retried:
  "(activeTunnels tm (Tunnel.ID tunnel) \<noteq> None \<longrightarrow>
      ConnectTunnel dial tunnel token (tm, w) =
        (Some (''tunnel '' @ Name tunnel @ '' is already connected''), (tm, w))
      \<and> strings_Contains (''tunnel '' @ Name tunnel @ '' is already connected'')
            ''already connected'')
   \<and> (IsConnected (interfere i tm) (Tunnel.ID tunnel) \<longrightarrow>
        ConnectTunnelWithRetry_loop ((i, dial) # script) attempt tunnel token autoReconnect
          (tm, w) =
        (Returned (Some (''tunnel '' @ Name tunnel @ '' is already connected'')),
         (interfere i tm, w)))
   \<and> (IsConnected (interfere i tm) (Tunnel.ID tunnel) \<and> attempt < 10 \<longrightarrow>
        reconnect_loop ((i, dial) # script) attempt tunnel token (tm, w) =
        (Returned FoundConnected, (interfere i tm, w)))"
  using already_connected_text [of "Name tunnel"]
  by (auto simp add: IsConnected_def ConnectTunnel_present maxReconnectAttempts_def Let_def
       simp del: strings_Contains.simps)

theorem already_connected_not_retried_witness:
  "activeTunnels connectedManager (Tunnel.ID exampleTunnel) \<noteq> None
   \<and> IsConnected (interfere Quiet connectedManager) (Tunnel.ID exampleTunnel)
   \<and> ConnectTunnel (DialOk 2) exampleTunnel ''tok'' (connectedManager, emptyWorld) =
       (Some ''tunnel web is already connected'', (connectedManager, emptyWorld))
   \<and> ConnectTunnelWithRetry [(Quiet, DialOk 2), refused, refused] exampleTunnel ''tok'' True
        (connectedManager, emptyWorld) =
       (Returned (Some ''tunnel web is already connected''), (connectedManager, emptyWorld))
   \<and> IsConnected (interfere (Registered exampleConn) (NewTunnelManager exampleConfig))
        (Tunnel.ID exampleTunnel)
   \<and> reconnect_loop [(Registered exampleConn, DialOk 2), refused] 3 exampleTunnel ''tok''
        (NewTunnelManager exampleConfig, emptyWorld) =
       (Returned FoundConnected, (connectedManager, emptyWorld))"
  using already_connected_not_retried [of connectedManager exampleTunnel "DialOk 2" "''tok''"
          emptyWorld Quiet "[refused, refused]" 0 True]
        already_connected_not_retried [of "NewTunnelManager exampleConfig" exampleTunnel
          "DialOk 2" "''tok''" emptyWorld "Registered exampleConn" "[refused]" 3 True]
  by (simp add: connectedManager_def exampleTunnel_def exampleConn_def IsConnected_def
        NewTunnelManager_def ConnectTunnelWithRetry_def
        del: ConnectTunnelWithRetry_loop.simps reconnect_loop.simps)

section \<open>The retry loops: how often they dial, how long they sleep\<close>

lemma retry_loop_dials:
  "0 \<le> attempt \<Longrightarrow>
   length (dialed (snd (snd (ConnectTunnelWithRetry_loop script attempt tunnel token False s))))
     \<le> length (dialed (snd s)) + nat (max 1 (5 - attempt))"
proof (induction script arbitrary: attempt s)
  case Nil
  then show ?case by simp
next
  case (Cons a script)
  obtain i dial where a: "a = (i, dial)" by (cases a)
  obtain tm w where s: "s = (tm, w)" by (cases s)
  obtain r tm' w' where c: "ConnectTunnel dial tunnel token (interfere i tm, w) = (r, (tm', w'))"
    by (metis surj_pair)
  note l = ConnectTunnel_logs [OF c]
  show ?case
  proof (cases r)
    case None
    with c l show ?thesis by (simp add: a s)
  next
    case (Some err)
    show ?thesis
    proof (cases "strings_Contains err ''already connected'' \<or> attempt + 1 \<ge> 5")
      case True
      with c l Some show ?thesis by (auto simp add: a s connect_maxRetries_def Let_def)
    next
      case False
      then have n: "\<not> strings_Contains err ''already connected''" and lt: "attempt + 1 < 5" by auto
      have "0 \<le> attempt + 1" using Cons.prems by simp
      from Cons.IH [OF this, of "(tm', w'\<lparr>slept := slept w' @ [backoffDelay (attempt + 1)]\<rparr>)"]
      have "length (dialed (snd (snd (ConnectTunnelWithRetry_loop script (attempt + 1) tunnel token False
               (tm', w'\<lparr>slept := slept w' @ [backoffDelay (attempt + 1)]\<rparr>)))))
            \<le> length (dialed w') + nat (max 1 (5 - (attempt + 1)))" by simp
      moreover have "nat (max 1 (5 - (attempt + 1))) + 1 \<le> nat (max 1 (5 - attempt))"
        using lt Cons.prems by auto
      ultimately show ?thesis
        using c l(4) Some n lt by (simp add: a s connect_maxRetries_def Let_def)
    qed
  qed
qed

lemma retry_loop_all_fail:
  "0 \<le> attempt \<Longrightarrow> nat (max 1 (5 - attempt)) \<le> length script \<Longrightarrow>
   list_all dial_failed (take (nat (max 1 (5 - attempt))) script) \<Longrightarrow>
   \<exists>err. fst (ConnectTunnelWithRetry_loop script attempt tunnel token False s) = Returned (Some err)"
proof (induction script arbitrary: attempt s)
  case Nil
  then show ?case by simp
next
  case (Cons a script)
  obtain i dial where a: "a = (i, dial)" by (cases a)
  obtain tm w where s: "s = (tm, w)" by (cases s)
  obtain r tm' w' where c: "ConnectTunnel dial tunnel token (interfere i tm, w) = (r, (tm', w'))"
    by (metis surj_pair)
  have pos: "0 < nat (max 1 (5 - attempt))" by simp
  then obtain m where m: "nat (max 1 (5 - attempt)) = Suc m" by (cases "nat (max 1 (5 - attempt))") auto
  from Cons.prems(3) have f: "dial_failed (i, dial)" and rest: "list_all dial_failed (take m script)"
    by (simp_all add: m a)
  from ConnectTunnel_logs(6) [OF c f] obtain err where r: "r = Some err" by auto
  show ?case
  proof (cases "strings_Contains err ''already connected'' \<or> attempt + 1 \<ge> 5")
    case True
    with c r show ?thesis by (auto simp add: a s connect_maxRetries_def Let_def)
  next
    case False
    then have n: "\<not> strings_Contains err ''already connected''" and lt: "attempt + 1 < 5" by auto
    have m': "nat (max 1 (5 - (attempt + 1))) = m" using m lt Cons.prems(1) by auto
    have "\<exists>err. fst (ConnectTunnelWithRetry_loop script (attempt + 1) tunnel token False
               (tm', w'\<lparr>slept := slept w' @ [backoffDelay (attempt + 1)]\<rparr>)) = Returned (Some err)"
    proof (rule Cons.IH)
      show "0 \<le> attempt + 1" using Cons.prems(1) by simp
      show "nat (max 1 (5 - (attempt + 1))) \<le> length script"
        unfolding m' using Cons.prems(2) unfolding m by simp
      show "list_all dial_failed (take (nat (max 1 (5 - (attempt + 1)))) script)"
        unfolding m' by (rule rest)
    qed
    then show ?thesis
      using c r n lt by (simp add: a s connect_maxRetries_def Let_def)
  qed
qed

lemma reconnect_loop_dials:
  "length (dialed (snd (snd (reconnect_loop script attempt tunnel token s))))
     \<le> length (dialed (snd s)) + nat (10 - attempt)"
proof (induction script arbitrary: attempt s)
  case Nil
  then show ?case by simp
next
  case (Cons a script)
  obtain i dial where a: "a = (i, dial)" by (cases a)
  obtain tm w where s: "s = (tm, w)" by (cases s)
  obtain r tm' w' where c: "ConnectTunnel dial tunnel token (interfere i tm, w) = (r, (tm', w'))"
    by (metis surj_pair)
  note l = ConnectTunnel_logs [OF c]
  show ?case
  proof (cases "attempt < 10")
    case False
    then show ?thesis by (simp add: a s maxReconnectAttempts_def)
  next
    case True
    then have step: "nat (10 - (attempt + 1)) + 1 = nat (10 - attempt)" by simp
    from Cons.IH [of "attempt + 1" "(tm', w'\<lparr>slept := slept w' @ [backoffDelay (attempt + 1)]\<rparr>)"]
    have "length (dialed (snd (snd (reconnect_loop script (attempt + 1) tunnel token
               (tm', w'\<lparr>slept := slept w' @ [backoffDelay (attempt + 1)]\<rparr>)))))
            \<le> length (dialed w') + nat (10 - (attempt + 1))" by simp
    with step l(4) have rec: "length (dialed (snd (snd (reconnect_loop script (attempt + 1) tunnel token
               (tm', w'\<lparr>slept := slept w' @ [backoffDelay (attempt + 1)]\<rparr>)))))
            \<le> length (dialed w) + nat (10 - attempt)" by linarith
    show ?thesis
    proof (cases r)
      case None
      with c l True show ?thesis by (simp add: a s maxReconnectAttempts_def Let_def)
    next
      case (Some err)
      with c l True rec show ?thesis
        by (cases "strings_Contains err ''already connected''")
           (simp_all add: a s maxReconnectAttempts_def Let_def)
    qed
  qed
qed

lemma monitorAndReconnect_dials:
  "length (dialed (snd (snd (monitorAndReconnect ticks script tunnel token s))))
     \<le> length (dialed (snd s)) + 10"
proof (induction ticks arbitrary: s)
  case Nil
  then show ?case by simp
next
  case (Cons i ticks)
  show ?case
  proof (cases "IsConnected (interfere i (fst s)) (Tunnel.ID tunnel)")
    case True
    with Cons.IH [of "(interfere i (fst s), snd s)"] show ?thesis by (simp add: Let_def)
  next
    case False
    with reconnect_loop_dials [of script 0 tunnel token "(interfere i (fst s), snd s)"]
    show ?thesis by (simp add: Let_def)
  qed
qed

lemma reconnect_loop_plain:
  assumes "activeTunnels tm (Tunnel.ID tunnel) = None"
  shows "0 \<le> a \<Longrightarrow> a \<le> 10 \<Longrightarrow> nat (10 - a) \<le> length script \<Longrightarrow>
    list_all plain_failure (take (nat (10 - a)) script) \<Longrightarrow>
    \<exists>w'. reconnect_loop script a tunnel token (tm, w) = (Returned GaveUp, (tm, w'))
       \<and> dialed w' = dialed w @
            replicate (nat (10 - a)) (dialURL (config tm), dialHeaders tunnel token)
       \<and> slept w' = slept w @ map backoffDelay [a + 1..10]"
proof (induction script arbitrary: a w)
  case Nil
  then have "a = 10" by simp
  then show ?case by (simp add: maxReconnectAttempts_def)
next
  case (Cons x script)
  show ?case
  proof (cases "a < 10")
    case False
    with Cons.prems have "a = 10" by simp
    then show ?thesis by (cases x) (simp add: maxReconnectAttempts_def)
  next
    case True
    then obtain m where m: "nat (10 - a) = Suc m" by (cases "nat (10 - a)") auto
    then have m': "nat (10 - (a + 1)) = m" by simp
    from Cons.prems(4) have px: "plain_failure x" and rest: "list_all plain_failure (take m script)"
      by (simp_all add: m)
    from px obtain err where x: "x = (Quiet, DialErr err)"
      and clean: "\<not> strings_Contains (''failed to connect to tunnel server: '' @ err) ''already connected''"
      by (cases x rule: plain_failure.cases) auto
    let ?w1 = "w\<lparr>dialed := dialed w @ [(dialURL (config tm), dialHeaders tunnel token)]\<rparr>"
    let ?w2 = "?w1\<lparr>slept := slept ?w1 @ [backoffDelay (a + 1)]\<rparr>"
    have c: "ConnectTunnel (DialErr err) tunnel token (tm, w) =
          (Some (''failed to connect to tunnel server: '' @ err), (tm, ?w1))"
      using assms by (simp add: ConnectTunnel_cases)
    have "\<exists>w'. reconnect_loop script (a + 1) tunnel token (tm, ?w2) = (Returned GaveUp, (tm, w'))
       \<and> dialed w' = dialed ?w2 @
            replicate (nat (10 - (a + 1))) (dialURL (config tm), dialHeaders tunnel token)
       \<and> slept w' = slept ?w2 @ map backoffDelay [a + 1 + 1..10]"
    proof (rule Cons.IH)
      show "0 \<le> a + 1" using Cons.prems(1) by simp
      show "a + 1 \<le> 10" using True by simp
      show "nat (10 - (a + 1)) \<le> length script" unfolding m' using Cons.prems(3) unfolding m by simp
      show "list_all plain_failure (take (nat (10 - (a + 1))) script)" unfolding m' by (rule rest)
    qed
    then obtain w' where r: "reconnect_loop script (a + 1) tunnel token (tm, ?w2) = (Returned GaveUp, (tm, w'))"
      and d: "dialed w' = dialed ?w2 @ replicate m (dialURL (config tm), dialHeaders tunnel token)"
      and sl: "slept w' = slept ?w2 @ map backoffDelay [a + 1 + 1..10]"
      unfolding m' by blast
    have step: "reconnect_loop (x # script) a tunnel token (tm, w) =
                reconnect_loop script (a + 1) tunnel token (tm, ?w2)"
      using True clean c by (simp add: x maxReconnectAttempts_def Let_def del: strings_Contains.simps)
    have d': "dialed w' = dialed w @ replicate (Suc m) (dialURL (config tm), dialHeaders tunnel token)"
      using d by simp
    have "[a + 1..10] = (a + 1) # [a + 1 + 1..10]"
      using True by (simp add: upto_rec1)
    with sl have sl': "slept w' = slept w @ map backoffDelay [a + 1..10]"
      by simp
    show ?thesis unfolding m step using r d' sl' by blast
  qed
qed

lemma upto_1_10: "[1..10::int] = [1, 2, 3, 4, 5, 6, 7, 8, 9, 10]"
  by code_simp

lemma upto_1_4: "[1..4::int] = [1, 2, 3, 4]"
  by code_simp

lemma backoffDelay_values:
  "map backoffDelay [1, 2, 3, 4, 5, 6, 7, 8, 9, 10] =
     [2000000000, 4000000000, 8000000000, 16000000000, 32000000000,
      60000000000, 60000000000, 60000000000, 60000000000, 60000000000]"
  by (simp add: backoffDelay_def baseDelay_def maxDelay_def Let_def word_sless_alt)

lemma backoffDelay_spec:
  assumes "1 \<le> k" and "k \<le> 10"
  shows "sint (backoffDelay k) = min 60000000000 (2000000000 * 2 ^ nat (k - 1))"
proof -
  from assms
  have "k = 1 \<or> k = 2 \<or> k = 3 \<or> k = 4 \<or> k = 5 \<or> k = 6 \<or> k = 7 \<or> k = 8 \<or> k = 9 \<or> k = 10"
    by presburger
  then show ?thesis
    by (elim disjE)
       (simp_all add: backoffDelay_def baseDelay_def maxDelay_def Let_def word_sless_alt)
qed

lemma retry_loop_step:
  assumes "activeTunnels tm (Tunnel.ID tunnel) = None"
    and "\<not> strings_Contains (''failed to connect to tunnel server: '' @ err) ''already connected''"
    and "autoReconnect \<or> attempt + 1 < 5"
  shows "ConnectTunnelWithRetry_loop ((Quiet, DialErr err) # script) attempt tunnel token
           autoReconnect (tm, w) =
         ConnectTunnelWithRetry_loop script
           (if autoReconnect \<and> attempt + 1 \<ge> 5 then 4 else attempt + 1) tunnel token autoReconnect
           (tm, w\<lparr>dialed := dialed w @ [(dialURL (config tm), dialHeaders tunnel token)],
                 slept := slept w @ [backoffDelay (attempt + 1)]\<rparr>)"
  using assms
  by (auto simp add: ConnectTunnel_cases connect_maxRetries_def Let_def
        simp del: strings_Contains.simps)

lemma retry_loop_last:
  assumes "activeTunnels tm (Tunnel.ID tunnel) = None"
    and "\<not> strings_Contains (''failed to connect to tunnel server: '' @ err) ''already connected''"
    and "attempt + 1 \<ge> 5"
  shows "ConnectTunnelWithRetry_loop ((Quiet, DialErr err) # script) attempt tunnel token
           False (tm, w) =
         (Returned (Some (''failed to connect tunnel after 5 attempts: ''
                          @ ''failed to connect to tunnel server: '' @ err)),
          (tm, w\<lparr>dialed := dialed w @ [(dialURL (config tm), dialHeaders tunnel token)]\<rparr>))"
proof -
  have "Itoa 5 = ''5''" by (simp add: Itoa_def utoa.simps)
  with assms show ?thesis
    by (auto simp add: ConnectTunnel_cases connect_maxRetries_def Let_def
        simp del: strings_Contains.simps)
qed

lemma retry_loop_plain:
  assumes "activeTunnels tm (Tunnel.ID tunnel) = None"
  shows "0 \<le> a \<Longrightarrow> a < 5 \<Longrightarrow> nat (5 - a) \<le> length script \<Longrightarrow>
    list_all plain_failure (take (nat (5 - a)) script) \<Longrightarrow>
    \<exists>w' err. ConnectTunnelWithRetry_loop script a tunnel token False (tm, w) =
         (Returned (Some (''failed to connect tunnel after 5 attempts: ''
                          @ ''failed to connect to tunnel server: '' @ err)), (tm, w'))
       \<and> dialed w' = dialed w @
            replicate (nat (5 - a)) (dialURL (config tm), dialHeaders tunnel token)
       \<and> slept w' = slept w @ map backoffDelay [a + 1..4]"
proof (induction script arbitrary: a w)
  case Nil
  then show ?case by simp
next
  case (Cons x script)
  from Cons.prems(2) obtain m where m: "nat (5 - a) = Suc m" by (cases "nat (5 - a)") auto
  from Cons.prems(4) have px: "plain_failure x" and rest: "list_all plain_failure (take m script)"
    by (simp_all add: m)
  from px obtain err where x: "x = (Quiet, DialErr err)"
    and clean: "\<not> strings_Contains (''failed to connect to tunnel server: '' @ err) ''already connected''"
    by (cases x rule: plain_failure.cases) auto
  show ?case
  proof (cases "a = 4")
    case True
    then have "m = 0" using m by simp
    have e: "[a + 1..4] = []" using True by simp
    have "5 \<le> a + 1" using True by simp
    from retry_loop_last [OF assms clean this, where script = script and token = token and w = w]
    show ?thesis unfolding x e using True by simp
  next
    case False
    with Cons.prems have lt: "a + 1 < 5" by simp
    then have m': "nat (5 - (a + 1)) = m" using m by simp
    let ?w2 = "w\<lparr>dialed := dialed w @ [(dialURL (config tm), dialHeaders tunnel token)],
                 slept := slept w @ [backoffDelay (a + 1)]\<rparr>"
    have "False \<or> a + 1 < 5" using lt by simp
    from retry_loop_step [OF assms clean this, where script = script and token = token and w = w]
    have step: "ConnectTunnelWithRetry_loop (x # script) a tunnel token False (tm, w) =
                ConnectTunnelWithRetry_loop script (a + 1) tunnel token False (tm, ?w2)"
      unfolding x by simp
    have "\<exists>w' err. ConnectTunnelWithRetry_loop script (a + 1) tunnel token False (tm, ?w2) =
         (Returned (Some (''failed to connect tunnel after 5 attempts: ''
                          @ ''failed to connect to tunnel server: '' @ err)), (tm, w'))
       \<and> dialed w' = dialed ?w2 @
            replicate (nat (5 - (a + 1))) (dialURL (config tm), dialHeaders tunnel token)
       \<and> slept w' = slept ?w2 @ map backoffDelay [a + 1 + 1..4]"
    proof (rule Cons.IH)
      show "0 \<le> a + 1" using Cons.prems(1) by simp
      show "a + 1 < 5" by (rule lt)
      show "nat (5 - (a + 1)) \<le> length script" unfolding m' using Cons.prems(3) unfolding m by simp
      show "list_all plain_failure (take (nat (5 - (a + 1))) script)" unfolding m' by (rule rest)
    qed
    then obtain w' err' where
      r: "ConnectTunnelWithRetry_loop script (a + 1) tunnel token False (tm, ?w2) =
         (Returned (Some (''failed to connect tunnel after 5 attempts: ''
                          @ ''failed to connect to tunnel server: '' @ err')), (tm, w'))"
      and d: "dialed w' = dialed ?w2 @ replicate m (dialURL (config tm), dialHeaders tunnel token)"
      and sl: "slept w' = slept ?w2 @ map backoffDelay [a + 1 + 1..4]"
      unfolding m' by blast
    have d': "dialed w' = dialed w @ replicate (Suc m) (dialURL (config tm), dialHeaders tunnel token)"
      using d by simp
    have "[a + 1..4] = (a + 1) # [a + 1 + 1..4]"
      using lt by (simp add: upto_rec1)
    with sl have sl': "slept w' = slept w @ map backoffDelay [a + 1..4]"
      by simp
    show ?thesis unfolding m step using r d' sl' by blast
  qed
qed

lemma refused_plain: "plain_failure refused"
  by (simp add: refused_def)

lemma refused_failed: "dial_failed refused"
  by (simp add: refused_def)

text \<open>
  Claim C5. With auto-reconnect disabled, \<open>ConnectTunnelWithRetry\<close> never dials more
  than five times, and when the first five passes of its script all fail to dial it
  returns an error to the caller; when they are plain transport failures for a tunnel
  that is not connected, it has dialled exactly five times, slept 2, 4, 8 and 16
  seconds between them, and the error is the wrapped error of the fifth dial. The
  reconnect goroutine never dials more than ten times; when the tick finds the tunnel
  disconnected and ten passes in a row are plain transport failures, it has dialled
  exactly ten times and returns for good (\<open>GaveUp\<close>), whatever the script still holds.
\<close>

theorem retry_limits:
  "length (dialed (snd (snd (ConnectTunnelWithRetry script tunnel token False s))))
     \<le> length (dialed (snd s)) + 5
   \<and> (5 \<le> length script \<and> list_all dial_failed (take 5 script) \<longrightarrow>
        (\<exists>err. fst (ConnectTunnelWithRetry script tunnel token False s) = Returned (Some err)))
   \<and> (activeTunnels tm (Tunnel.ID tunnel) = None \<and> 5 \<le> length script
        \<and> list_all plain_failure (take 5 script) \<longrightarrow>
        (\<exists>w' err. ConnectTunnelWithRetry script tunnel token False (tm, w) =
            (Returned (Some (''failed to connect tunnel after 5 attempts: ''
                             @ ''failed to connect to tunnel server: '' @ err)), (tm, w'))
          \<and> dialed w' = dialed w @ replicate 5 (dialURL (config tm), dialHeaders tunnel token)
          \<and> slept w' = slept w @ [2000000000, 4000000000, 8000000000, 16000000000]))
   \<and> length (dialed (snd (snd (monitorAndReconnect ticks script tunnel token s))))
        \<le> length (dialed (snd s)) + 10
   \<and> (\<not> IsConnected (interfere i tm) (Tunnel.ID tunnel) \<and> 10 \<le> length script
        \<and> list_all plain_failure (take 10 script) \<longrightarrow>
        (\<exists>w'. monitorAndReconnect (i # ticks) script tunnel token (tm, w) =
            (Returned GaveUp, (interfere i tm, w'))
          \<and> dialed w' = dialed w @
               replicate 10 (dialURL (config (interfere i tm)), dialHeaders tunnel token)
          \<and> slept w' = slept w @
               [2000000000, 4000000000, 8000000000, 16000000000, 32000000000,
                60000000000, 60000000000, 60000000000, 60000000000, 60000000000]))"
proof (intro conjI impI)
  show "length (dialed (snd (snd (ConnectTunnelWithRetry script tunnel token False s))))
     \<le> length (dialed (snd s)) + 5"
    using retry_loop_dials [of 0 script tunnel token s]
    by (simp add: ConnectTunnelWithRetry_def)
next
  assume "5 \<le> length script \<and> list_all dial_failed (take 5 script)"
  then show "\<exists>err. fst (ConnectTunnelWithRetry script tunnel token False s) = Returned (Some err)"
    using retry_loop_all_fail [of 0 script tunnel token s]
    by (simp add: ConnectTunnelWithRetry_def)
next
  assume a: "activeTunnels tm (Tunnel.ID tunnel) = None \<and> 5 \<le> length script
        \<and> list_all plain_failure (take 5 script)"
  have v: "map backoffDelay [0 + 1..4] = [2000000000, 4000000000, 8000000000, 16000000000]"
    by (simp add: upto_1_4 backoffDelay_def baseDelay_def maxDelay_def Let_def word_sless_alt)
  from a have "activeTunnels tm (Tunnel.ID tunnel) = None" by simp
  from retry_loop_plain [OF this, of 0 script token w] a
  show "\<exists>w' err. ConnectTunnelWithRetry script tunnel token False (tm, w) =
            (Returned (Some (''failed to connect tunnel after 5 attempts: ''
                             @ ''failed to connect to tunnel server: '' @ err)), (tm, w'))
          \<and> dialed w' = dialed w @ replicate 5 (dialURL (config tm), dialHeaders tunnel token)
          \<and> slept w' = slept w @ [2000000000, 4000000000, 8000000000, 16000000000]"
    unfolding v ConnectTunnelWithRetry_def by simp
next
  show "length (dialed (snd (snd (monitorAndReconnect ticks script tunnel token s))))
        \<le> length (dialed (snd s)) + 10"
    by (rule monitorAndReconnect_dials)
next
  assume a: "\<not> IsConnected (interfere i tm) (Tunnel.ID tunnel) \<and> 10 \<le> length script
        \<and> list_all plain_failure (take 10 script)"
  have v: "map backoffDelay [0 + 1..10] =
       [2000000000, 4000000000, 8000000000, 16000000000, 32000000000,
        60000000000, 60000000000, 60000000000, 60000000000, 60000000000]"
    using backoffDelay_values by (simp add: upto_1_10)
  from a have "activeTunnels (interfere i tm) (Tunnel.ID tunnel) = None"
    by (simp add: IsConnected_def)
  from reconnect_loop_plain [OF this, of 0 script token w] a
  have "\<exists>w'. reconnect_loop script 0 tunnel token (interfere i tm, w) =
            (Returned GaveUp, (interfere i tm, w'))
          \<and> dialed w' = dialed w @
               replicate 10 (dialURL (config (interfere i tm)), dialHeaders tunnel token)
          \<and> slept w' = slept w @
               [2000000000, 4000000000, 8000000000, 16000000000, 32000000000,
                60000000000, 60000000000, 60000000000, 60000000000, 60000000000]"
    unfolding v by simp
  with a show "\<exists>w'. monitorAndReconnect (i # ticks) script tunnel token (tm, w) =
            (Returned GaveUp, (interfere i tm, w'))
          \<and> dialed w' = dialed w @
               replicate 10 (dialURL (config (interfere i tm)), dialHeaders tunnel token)
          \<and> slept w' = slept w @
               [2000000000, 4000000000, 8000000000, 16000000000, 32000000000,
                60000000000, 60000000000, 60000000000, 60000000000, 60000000000]"
    by (simp add: Let_def)
qed

theorem retry_limits_witness:
  "5 \<le> length [refused, refused, refused, refused, refused]
   \<and> list_all dial_failed (take 5 [refused, refused, refused, refused, refused])
   \<and> list_all plain_failure (take 5 [refused, refused, refused, refused, refused])
   \<and> activeTunnels (NewTunnelManager exampleConfig) (Tunnel.ID exampleTunnel) = None
   \<and> (\<exists>w'. ConnectTunnelWithRetry [refused, refused, refused, refused, refused]
               exampleTunnel ''tok'' False (NewTunnelManager exampleConfig, emptyWorld) =
            (Returned (Some (''failed to connect tunnel after 5 attempts: ''
                  @ ''failed to connect to tunnel server: connection refused'')),
             (NewTunnelManager exampleConfig, w'))
        \<and> length (dialed w') = 5
        \<and> slept w' = [2000000000, 4000000000, 8000000000, 16000000000])
   \<and> \<not> IsConnected (interfere (Removed ''t1'') connectedManager) (Tunnel.ID exampleTunnel)
   \<and> 10 \<le> length [refused, refused, refused, refused, refused,
                     refused, refused, refused, refused, refused, refused]
   \<and> (\<exists>w'. monitorAndReconnect [Removed ''t1'']
               [refused, refused, refused, refused, refused,
                refused, refused, refused, refused, refused, refused]
               exampleTunnel ''tok'' (connectedManager, emptyWorld) =
            (Returned GaveUp, (interfere (Removed ''t1'') connectedManager, w'))
        \<and> length (dialed w') = 10
        \<and> slept w' = [2000000000, 4000000000, 8000000000, 16000000000, 32000000000,
                       60000000000, 60000000000, 60000000000, 60000000000, 60000000000])"
proof -
  have h1: "5 \<le> length [refused, refused, refused, refused, refused]" by simp
  have h2: "list_all dial_failed (take 5 [refused, refused, refused, refused, refused])"
    by (simp add: refused_failed)
  have h3: "list_all plain_failure (take 5 [refused, refused, refused, refused, refused])"
    by (simp add: refused_plain)
  have h4: "activeTunnels (NewTunnelManager exampleConfig) (Tunnel.ID exampleTunnel) = None"
    by (rule fresh_manager)
  have h5: "\<not> IsConnected (interfere (Removed ''t1'') connectedManager) (Tunnel.ID exampleTunnel)"
    by (simp add: IsConnected_def connectedManager_def exampleTunnel_def)
  have h6: "10 \<le> length [refused, refused, refused, refused, refused,
                     refused, refused, refused, refused, refused, refused]" by simp
  have h7: "list_all plain_failure (take 10 [refused, refused, refused, refused, refused,
                     refused, refused, refused, refused, refused, refused])"
    by (simp add: refused_plain)
  note t1 = retry_limits [of "[refused, refused, refused, refused, refused]" exampleTunnel
      "''tok''" "(NewTunnelManager exampleConfig, emptyWorld)" "NewTunnelManager exampleConfig"
      emptyWorld "[]" Quiet]
  from t1 h1 h3 h4
  obtain w' err where
    r: "ConnectTunnelWithRetry [refused, refused, refused, refused, refused]
               exampleTunnel ''tok'' False (NewTunnelManager exampleConfig, emptyWorld) =
            (Returned (Some (''failed to connect tunnel after 5 attempts: ''
                  @ ''failed to connect to tunnel server: '' @ err)),
             (NewTunnelManager exampleConfig, w'))"
    and d: "dialed w' = dialed emptyWorld @ replicate 5
              (dialURL (config (NewTunnelManager exampleConfig)), dialHeaders exampleTunnel ''tok'')"
    and sl: "slept w' = slept emptyWorld @ [2000000000, 4000000000, 8000000000, 16000000000]"
    by blast
  have e: "fst (ConnectTunnelWithRetry [refused, refused, refused, refused, refused]
               exampleTunnel ''tok'' False (NewTunnelManager exampleConfig, emptyWorld)) =
           Returned (Some (''failed to connect tunnel after 5 attempts: ''
                  @ ''failed to connect to tunnel server: connection refused''))"
    unfolding ConnectTunnelWithRetry_def refused_def
    by (simp add: retry_loop_step [OF fresh_manager] retry_loop_last [OF fresh_manager]
          del: ConnectTunnelWithRetry_loop.simps(2))
  from r e have err: "err = ''connection refused''" by simp
  have c1: "\<exists>w'. ConnectTunnelWithRetry [refused, refused, refused, refused, refused]
               exampleTunnel ''tok'' False (NewTunnelManager exampleConfig, emptyWorld) =
            (Returned (Some (''failed to connect tunnel after 5 attempts: ''
                  @ ''failed to connect to tunnel server: connection refused'')),
             (NewTunnelManager exampleConfig, w'))
        \<and> length (dialed w') = 5
        \<and> slept w' = [2000000000, 4000000000, 8000000000, 16000000000]"
    using r d sl unfolding err by (simp add: emptyWorld_def)
  note t2 = retry_limits [of "[refused, refused, refused, refused, refused,
                     refused, refused, refused, refused, refused, refused]" exampleTunnel
      "''tok''" "(connectedManager, emptyWorld)" connectedManager
      emptyWorld "[]" "Removed ''t1''"]
  from t2 h5 h6 h7
  obtain w'' where
    r2: "monitorAndReconnect [Removed ''t1'']
               [refused, refused, refused, refused, refused,
                refused, refused, refused, refused, refused, refused]
               exampleTunnel ''tok'' (connectedManager, emptyWorld) =
            (Returned GaveUp, (interfere (Removed ''t1'') connectedManager, w''))"
    and d2: "dialed w'' = dialed emptyWorld @ replicate 10
              (dialURL (config (interfere (Removed ''t1'') connectedManager)),
               dialHeaders exampleTunnel ''tok'')"
    and sl2: "slept w'' = slept emptyWorld @
               [2000000000, 4000000000, 8000000000, 16000000000, 32000000000,
                60000000000, 60000000000, 60000000000, 60000000000, 60000000000]"
    by blast
  have c2: "\<exists>w'. monitorAndReconnect [Removed ''t1'']
               [refused, refused, refused, refused, refused,
                refused, refused, refused, refused, refused, refused]
               exampleTunnel ''tok'' (connectedManager, emptyWorld) =
            (Returned GaveUp, (interfere (Removed ''t1'') connectedManager, w'))
        \<and> length (dialed w') = 10
        \<and> slept w' = [2000000000, 4000000000, 8000000000, 16000000000, 32000000000,
                       60000000000, 60000000000, 60000000000, 60000000000, 60000000000]"
    using r2 d2 sl2 by (simp add: emptyWorld_def)
  from h1 h2 h3 h4 c1 h5 h6 c2 show ?thesis by blast
qed

text \<open>
  Claim C4 at the input where the code departs from it: auto-reconnect enabled and six
  dials refused in a row. After the fifth failure the counter, which has reached 5, is
  set back to 4, so the sixth failure computes the delay of a fifth attempt again: the
  sixth sleep is 32 s, where \<open>min(60 s, 2 s * 2^5)\<close> is 60 s. The loop is still
  retrying when the script ends.
\<close>

theorem persistent_retry_sixth_delay:
  "map sint (slept (snd (snd (ConnectTunnelWithRetry
      [refused, refused, refused, refused, refused, refused]
      exampleTunnel ''tok'' True (NewTunnelManager exampleConfig, emptyWorld))))) =
   [2000000000, 4000000000, 8000000000, 16000000000, 32000000000, 32000000000]
   \<and> fst (ConnectTunnelWithRetry
      [refused, refused, refused, refused, refused, refused]
      exampleTunnel ''tok'' True (NewTunnelManager exampleConfig, emptyWorld)) = StillRunning
   \<and> min 60000000000 (2000000000 * 2 ^ (6 - 1)) = (60000000000 :: int)"
  unfolding ConnectTunnelWithRetry_def refused_def
  by (simp add: retry_loop_step [OF fresh_manager] emptyWorld_def
        backoffDelay_def baseDelay_def maxDelay_def Let_def word_sless_alt
        del: ConnectTunnelWithRetry_loop.simps(2))

section \<open>The protocol handler: one correlated response\<close>

lemma sendMessage_sent:
  "sent (snd (sendMessage outcome message wire)) =
     sent wire @ (if outcome = SendOk then [message] else [])"
  and sendMessage_result: "(fst (sendMessage outcome message wire) = None) = (outcome = SendOk)"
  by (cases outcome; simp add: sendMessage_def)+

lemma sendErrorResponse_sent:
  "sent (snd (sendErrorResponse outcome requestID errorMsg wire)) =
     sent wire @ (if outcome = SendOk
        then [\<lparr>Type = ''http_response'', ID = requestID, Method = [], URL = [],
               Headers = [''Content-Type'' \<mapsto> ''text/plain''], Body = errorMsg,
               Status = 502, Error = errorMsg, Timestamp = now wire\<rparr>] else [])"
  and sendErrorResponse_result:
  "(fst (sendErrorResponse outcome requestID errorMsg wire) = None) = (outcome = SendOk)"
  by (simp_all add: sendErrorResponse_def sendMessage_sent sendMessage_result
        StatusBadGateway_def Let_def)

text \<open>
  Claim C1. For an \<open>http_request\<close> frame, whatever the origin does, the handler hands
  exactly one frame to the tunnel connection: an \<open>http_response\<close> with the id of the
  request. It is on the wire when the write to the tunnel connection succeeds, and then
  the handler returns \<open>nil\<close>; when the write itself fails, nothing is written and the
  write error is returned. When the call to the origin failed (the request could not
  be built, the origin could not be reached, or the body could not be read), the
  response has status 502 and a non-empty \<open>error\<close>; otherwise it carries the origin's
  status, joined headers and body.
\<close>

theorem http_request_one_response:
  assumes "unmarshal env = Inr message" and "Type message = ''http_request''"
  shows "(send env = SendOk \<longrightarrow>
      (\<exists>response.
          sent (snd (HandleTunnelMessage atp env wire)) = sent wire @ [response]
        \<and> fst (HandleTunnelMessage atp env wire) = None
        \<and> Type response = ''http_response''
        \<and> TunnelMessage.ID response = TunnelMessage.ID message
        \<and> (origin_failed (origin env) \<longrightarrow>
              TunnelMessage.Status response = 502 \<and> Error response \<noteq> [])
        \<and> (\<forall>st h body. origin env = Response st h body \<longrightarrow>
              TunnelMessage.Status response = st \<and> Headers response = joinHeaders h
              \<and> Body response = body \<and> Error response = [])))
    \<and> (send env \<noteq> SendOk \<longrightarrow>
          sent (snd (HandleTunnelMessage atp env wire)) = sent wire
        \<and> fst (HandleTunnelMessage atp env wire) \<noteq> None)"
proof (cases "origin env")
  case (NewRequestErr err)
  with assms show ?thesis
    by (simp add: HandleTunnelMessage_def handleHTTPRequest_def Let_def
          sendErrorResponse_sent sendErrorResponse_result)
next
  case (DoErr err)
  with assms show ?thesis
    by (simp add: HandleTunnelMessage_def handleHTTPRequest_def Let_def
          sendErrorResponse_sent sendErrorResponse_result)
next
  case (ReadAllErr st h err)
  with assms show ?thesis
    by (simp add: HandleTunnelMessage_def handleHTTPRequest_def Let_def
          sendErrorResponse_sent sendErrorResponse_result)
next
  case (Response st h body)
  with assms show ?thesis
    by (simp add: HandleTunnelMessage_def handleHTTPRequest_def Let_def
          sendMessage_sent sendMessage_result)
qed

theorem http_request_one_response_witness:
  "unmarshal (downEnv requestFrame) = Inr requestFrame
   \<and> Type requestFrame = ''http_request''
   \<and> send (downEnv requestFrame) = SendOk
   \<and> origin_failed (origin (downEnv requestFrame))
   \<and> (\<exists>response.
         sent (snd (HandleTunnelMessage exampleProtocol (downEnv requestFrame) emptyWire)) =
           [response]
       \<and> Type response = ''http_response''
       \<and> TunnelMessage.ID response = ''r1''
       \<and> TunnelMessage.Status response = 502
       \<and> Error response = ''Failed to connect to local service: connection refused'')
   \<and> send ((upEnv requestFrame)\<lparr>send := WriteErr ''broken pipe''\<rparr>) \<noteq> SendOk
   \<and> sent (snd (HandleTunnelMessage exampleProtocol
        ((upEnv requestFrame)\<lparr>send := WriteErr ''broken pipe''\<rparr>) emptyWire)) = []"
proof -
  have h1: "unmarshal (downEnv requestFrame) = Inr requestFrame" by (simp add: downEnv_def)
  have h2: "Type requestFrame = ''http_request''" by (simp add: requestFrame_def)
  have h3: "send (downEnv requestFrame) = SendOk" by (simp add: downEnv_def)
  have h4: "origin_failed (origin (downEnv requestFrame))" by (simp add: downEnv_def)
  from http_request_one_response [OF h1 h2, of exampleProtocol emptyWire] h3 h4
  obtain response where
    s: "sent (snd (HandleTunnelMessage exampleProtocol (downEnv requestFrame) emptyWire)) =
          sent emptyWire @ [response]"
    and t: "Type response = ''http_response''"
    and i: "TunnelMessage.ID response = TunnelMessage.ID requestFrame"
    and st: "TunnelMessage.Status response = 502"
    by blast
  have e: "map Error (sent (snd (HandleTunnelMessage exampleProtocol (downEnv requestFrame)
              emptyWire))) = [''Failed to connect to local service: connection refused'']"
    by (simp add: HandleTunnelMessage_def handleHTTPRequest_def Let_def downEnv_def
          requestFrame_def sendErrorResponse_sent emptyWire_def)
  have c1: "\<exists>response.
         sent (snd (HandleTunnelMessage exampleProtocol (downEnv requestFrame) emptyWire)) =
           [response]
       \<and> Type response = ''http_response''
       \<and> TunnelMessage.ID response = ''r1''
       \<and> TunnelMessage.Status response = 502
       \<and> Error response = ''Failed to connect to local service: connection refused''"
    using s t i st e by (simp add: emptyWire_def requestFrame_def)
  have g1: "unmarshal ((upEnv requestFrame)\<lparr>send := WriteErr ''broken pipe''\<rparr>) = Inr requestFrame"
    by (simp add: upEnv_def)
  have g3: "send ((upEnv requestFrame)\<lparr>send := WriteErr ''broken pipe''\<rparr>) \<noteq> SendOk"
    by simp
  from http_request_one_response [OF g1 h2, of exampleProtocol emptyWire] g3
  have c2: "sent (snd (HandleTunnelMessage exampleProtocol
        ((upEnv requestFrame)\<lparr>send := WriteErr ''broken pipe''\<rparr>) emptyWire)) = []"
    by (simp add: emptyWire_def)
  from h1 h2 h3 h4 c1 g3 c2 show ?thesis by blast
qed




section \<open>Inbound WebSocket data\<close>

lemma websocket_data_ignored:
  "unmarshal env = Inr message \<Longrightarrow> Type message = ''websocket_data'' \<Longrightarrow>
   HandleTunnelMessage atp env wire = (None, wire)"
  by (simp add: HandleTunnelMessage_def handleWebSocketData_def)

text \<open>
  Claim C2 at a frame the code can receive: the pairing \<open>u1\<close> is established (the local
  WebSocket is dialled and open, the upgrade response is sent) and the edge sends a
  \<open>websocket_data\<close> frame for \<open>u1\<close> with the text message \<open>a\<close>. The handler returns
  \<open>nil\<close> and the wire is the one before the call: nothing is written to the local
  connection, where the claim has the body written to it as a text message.
\<close>

theorem websocket_data_not_written:
  "HandleTunnelMessage exampleProtocol (upEnv dataFrame) pairedWire = (None, pairedWire)
   \<and> localWritten (snd (HandleTunnelMessage exampleProtocol (upEnv dataFrame) pairedWire)) = []
   \<and> Type dataFrame = ''websocket_data'' \<and> TunnelMessage.ID dataFrame = ''u1''
   \<and> Headers dataFrame ''message_type'' = Some ''1'' \<and> Body dataFrame = ''a''"
proof -
  have "unmarshal (upEnv dataFrame) = Inr dataFrame" by (simp add: upEnv_def)
  moreover have "Type dataFrame = ''websocket_data''" by (simp add: dataFrame_def)
  ultimately have "HandleTunnelMessage exampleProtocol (upEnv dataFrame) pairedWire =
      (None, pairedWire)"
    by (rule websocket_data_ignored)
  then show ?thesis by (simp add: pairedWire_def emptyWire_def dataFrame_def)
qed

section \<open>The health monitor's reconnect queue\<close>











end
